theory Spec2Isabelle
  imports Main
begin

section \<open>Textenger: conversation stores, composer and room creation\<close>

text \<open>
  A shallow embedding of the two chat components of the repository: the room chat page
  (\<^verbatim>\<open>RoomChatPage\<close>) and the direct message window (\<^verbatim>\<open>DirectMessageWindow\<close>).
  Each asynchronous function of the source becomes a function on the component's state
  that takes the remote client's answer as an argument and returns the new state with
  the trace of what it did (requests, console lines, toasts), in the order of the source.
\<close>

subsection \<open>Strings: \<^verbatim>\<open>String.prototype.trim\<close> and truthiness\<close>

text \<open>
  \<^verbatim>\<open>trim\<close> removes white space and line terminators from both ends. Characters are
  the 8-bit ones of \<^typ>\<open>string\<close>: of ECMAScript's white space, TAB, LF, VT, FF, CR, SP
  and NBSP lie in that range.
\<close>

definition is_whitespace :: "char \<Rightarrow> bool" where
  "is_whitespace c =
     (c \<in> set [CHR 0x09, CHR 0x0A, CHR 0x0B, CHR 0x0C, CHR 0x0D, CHR 0x20, CHR 0xA0])"

definition trim :: "string \<Rightarrow> string" where
  "trim s = rev (dropWhile is_whitespace (rev (dropWhile is_whitespace s)))"

text \<open>A string is falsy exactly when it is empty.\<close>

definition truthy :: "string \<Rightarrow> bool" where
  "truthy s = (s \<noteq> [])"

subsection \<open>Data model\<close>

text \<open>
  \<^verbatim>\<open>created_at\<close> is the server's timestamp; the remote orders rows by the instant,
  which is a natural number here (the source only ever displays its text).
\<close>

record Room =
  room_id :: string
  room_name :: string
  room_description :: "string option"
  room_created_at :: nat
  owner_id :: string

record Profiles =
  username :: string
  display_name :: "string option"
  avatar_url :: "string option"

record RoomMessage =
  rm_id :: string
  rm_content :: string
  rm_created_at :: nat
  rm_sender_id :: string
  profiles :: "Profiles option"

record DirectMessage =
  dm_id :: string
  dm_content :: string
  dm_created_at :: nat
  dm_sender_id :: string
  dm_receiver_id :: string

record OtherUser =
  ou_id :: string
  ou_username :: string
  ou_display_name :: "string option"
  ou_avatar_url :: "string option"

text \<open>A row of table \<^verbatim>\<open>room_messages\<close> as the remote stores it and as a change event carries it.\<close>

record RoomMessageRow =
  row_id :: string
  row_room_id :: string
  row_sender_id :: string
  row_content :: string
  row_created_at :: nat

text \<open>The client's error object: the source reads \<^verbatim>\<open>code\<close> and \<^verbatim>\<open>message\<close>.\<close>

record RemoteError =
  code :: string
  message :: string

text \<open>The client answers every request with \<^verbatim>\<open>{ data, error }\<close>.\<close>

record 'a response =
  data :: "'a option"
  error :: "RemoteError option"

subsection \<open>Requests to the remote client\<close>

datatype filter = Eq string string | And filter filter | Or filter filter

record query =
  q_table :: string
  q_columns :: string
  q_filter :: "filter option"
  q_order :: "(string \<times> bool) option"
  q_limit :: "nat option"
  q_single :: bool

text \<open>
  An insert names its table and the columns it sets; the flag says whether the inserted
  row is asked back (\<^verbatim>\<open>.select().single()\<close>).
\<close>

datatype request =
    Select query
  | Insert string "(string \<times> string) list" bool

text \<open>
  The description a component gives when it opens a realtime channel:
  \<^verbatim>\<open>supabase.channel(name).on('postgres_changes', { event: 'INSERT', table, filter }, handler)\<close>.
\<close>

record channel =
  ch_name :: string
  ch_table :: string
  ch_filter :: "filter option"

text \<open>
  What a function does besides changing the component's state, in program order: the
  requests it sends, the console lines and toasts, and its calls to the realtime
  client, \<^verbatim>\<open>supabase.channel(...).on(...).subscribe()\<close> and
  \<^verbatim>\<open>supabase.removeChannel(channel)\<close>. What the realtime client does on these calls
  (whether it opens another channel under a name already in use, hands back the one it
  has, or throws) is not part of the repository and is not modelled: the trace records
  that the component makes the call, and with which description.

  A query or insert is sent when it is awaited: the builder is a thenable, so the fetch
  starts when the synchronous code around the call has run. A function that is called
  without \<^verbatim>\<open>await\<close> therefore sends its first request after the statements that
  follow the call.
\<close>

datatype effect =
    Request request
  | ConsoleLog string
  | ConsoleError string
  | ToastError string
  | ToastSuccess string
  | ChannelSubscribe channel
  | ChannelRemove channel

definition requests :: "effect list \<Rightarrow> request list" where
  "requests es = concat (map (\<lambda>e. case e of Request r \<Rightarrow> [r] | _ \<Rightarrow> []) es)"

definition inserts :: "effect list \<Rightarrow> request list" where
  "inserts es = filter (\<lambda>r. case r of Insert t v b \<Rightarrow> True | _ \<Rightarrow> False) (requests es)"


subsection \<open>Effects and their clean-up\<close>

text \<open>
  React runs the clean-up function an effect returned, if it returned one, before it runs
  the effect again and when the component unmounts. The clean-up closures of this
  repository all call \<^verbatim>\<open>supabase.removeChannel\<close> on the channel their effect opened,
  so a stored clean-up is that channel.
\<close>

definition run_cleanup :: "channel option \<Rightarrow> effect list" where
  "run_cleanup cl = (case cl of None \<Rightarrow> [] | Some ch \<Rightarrow> [ChannelRemove ch])"

subsection \<open>Error text shown to the user\<close>


subsection \<open>The room chat page\<close>

text \<open>
  The component's state hooks. \<^verbatim>\<open>user\<close> is \<^verbatim>\<open>user?.id\<close> of \<^verbatim>\<open>useAuth\<close>:
  \<open>None\<close> when nobody is signed in.
\<close>

record RoomChatPage =
  user :: "string option"
  rooms :: "Room list"
  selectedRoom :: "Room option"
  messages :: "RoomMessage list"
  newMessage :: string
  newRoom_name :: string
  newRoom_description :: string
  loading :: bool
  sending :: bool
  isDialogOpen :: bool

definition loadRooms_query :: query where
  "loadRooms_query =
     \<lparr>q_table = ''rooms'', q_columns = ''*'', q_filter = None,
      q_order = Some (''created_at'', True), q_limit = None, q_single = False\<rparr>"

text \<open>
  \<^verbatim>\<open>loadRooms\<close> up to its \<^verbatim>\<open>await\<close>: the console line is written during the call,
  the query is sent once the caller's synchronous code has run.
\<close>

definition loadRooms_called :: "effect list" where
  "loadRooms_called = [ConsoleLog ''Loading rooms for user:'']"

definition loadRooms_sent :: "effect list" where
  "loadRooms_sent = [Request (Select loadRooms_query)]"

definition loadRooms_issue :: "effect list" where
  "loadRooms_issue = loadRooms_called @ loadRooms_sent"


definition room_message_columns :: string where
  "room_message_columns =
     ''id, content, created_at, sender_id, profiles:sender_id (username, display_name, avatar_url)''"

definition loadMessages_query :: "string \<Rightarrow> query" where
  "loadMessages_query roomId =
     \<lparr>q_table = ''room_messages'', q_columns = room_message_columns,
      q_filter = Some (Eq ''room_id'' roomId),
      q_order = Some (''created_at'', True), q_limit = Some 50, q_single = False\<rparr>"

definition loadMessages_issue :: "string \<Rightarrow> effect list" where
  "loadMessages_issue roomId = [Request (Select (loadMessages_query roomId))]"

definition loadMessages_resume ::
  "RoomMessage list response \<Rightarrow> RoomChatPage \<Rightarrow> RoomChatPage \<times> effect list" where
  "loadMessages_resume r st =
     (case error r of
        Some e \<Rightarrow> (st, [ConsoleError ''Error loading messages:'', ToastError ''Failed to load messages''])
      | None \<Rightarrow> (st\<lparr>messages := (case data r of None \<Rightarrow> [] | Some d \<Rightarrow> d)\<rparr>, []))"

definition loadMessages ::
  "string \<Rightarrow> RoomMessage list response \<Rightarrow> RoomChatPage \<Rightarrow> RoomChatPage \<times> effect list" where
  "loadMessages roomId r st =
     (let (st', es) = loadMessages_resume r st in (st', loadMessages_issue roomId @ es))"

text \<open>
  \<^verbatim>\<open>subscribeToMessages\<close> asks the realtime client for a channel, always under the
  name \<^verbatim>\<open>room-messages\<close>, and returns the closure that removes it (here: the channel).
\<close>

definition room_channel :: "string \<Rightarrow> channel" where
  "room_channel roomId =
     \<lparr>ch_name = ''room-messages'', ch_table = ''room_messages'',
      ch_filter = Some (Eq ''room_id'' roomId)\<rparr>"

definition subscribeToMessages :: "string \<Rightarrow> effect list \<times> channel" where
  "subscribeToMessages roomId = ([ChannelSubscribe (room_channel roomId)], room_channel roomId)"

text \<open>The channel's handler: the row is fetched again by the id of the event's row.\<close>

definition refetch_query :: "string \<Rightarrow> query" where
  "refetch_query mid =
     \<lparr>q_table = ''room_messages'', q_columns = room_message_columns,
      q_filter = Some (Eq ''id'' mid), q_order = None, q_limit = None, q_single = True\<rparr>"

definition onInsert :: "RoomMessageRow \<Rightarrow> RoomMessage response \<Rightarrow> RoomChatPage \<Rightarrow> RoomChatPage \<times> effect list" where
  "onInsert payload r st =
     (case data r of
        Some d \<Rightarrow> (st\<lparr>messages := messages st @ [d]\<rparr>, [Request (Select (refetch_query (row_id payload)))])
      | None \<Rightarrow> (st, [Request (Select (refetch_query (row_id payload)))]))"

text \<open>
  The effect on \<^verbatim>\<open>[selectedRoom]\<close>. Its function returns nothing: the closure that
  \<^verbatim>\<open>subscribeToMessages\<close> returns is dropped, so React has no clean-up to run.
\<close>

definition selectedRoom_effect :: "RoomChatPage \<Rightarrow> effect list \<times> channel option" where
  "selectedRoom_effect st =
     (case selectedRoom st of
        None \<Rightarrow> ([], None)
      | Some room \<Rightarrow>
          (let (es, unsubscribe) = subscribeToMessages (room_id room)
           in (es @ loadMessages_issue (room_id room), None)))"

text \<open>
  A mounted page: the state and the clean-up React holds for the effect.
  \<^verbatim>\<open>setSelectedRoom(room)\<close> re-renders, and the effect runs again when the dependency
  changed, after the clean-up of its previous run. React compares the dependency with
  \<^verbatim>\<open>Object.is\<close>, that is by object identity, which a HOL value does not carry: the
  first argument says whether the room passed is the very object the state holds (a
  click on the selected entry of an unchanged list). An equal room of a reloaded list is
  another object.
\<close>

type_synonym room_world = "RoomChatPage \<times> channel option"

definition setSelectedRoom :: "bool \<Rightarrow> Room \<Rightarrow> room_world \<Rightarrow> room_world \<times> effect list" where
  "setSelectedRoom same_object room w =
     (case w of (st, cl) \<Rightarrow>
        (if same_object \<and> selectedRoom st = Some room then (w, [])
         else
           (let st' = st\<lparr>selectedRoom := Some room\<rparr>;
                (es, cl') = selectedRoom_effect st'
            in ((st', cl'), run_cleanup cl @ es))))"




text \<open>
  \<^verbatim>\<open>sendMessage\<close>: the guard, the part up to the \<^verbatim>\<open>await\<close> and the part after it.
\<close>

definition sendMessage_guard :: "RoomChatPage \<Rightarrow> bool" where
  "sendMessage_guard st =
     (user st = None \<or> selectedRoom st = None \<or> \<not> truthy (trim (newMessage st)))"

definition sendMessage_issue :: "RoomChatPage \<Rightarrow> RoomChatPage \<times> effect list" where
  "sendMessage_issue st =
     (case (user st, selectedRoom st) of
        (Some uid, Some room) \<Rightarrow>
          (if \<not> truthy (trim (newMessage st)) then (st, [])
           else (st\<lparr>sending := True\<rparr>,
                 [Request (Insert ''room_messages''
                    [(''room_id'', room_id room),
                     (''sender_id'', uid),
                     (''content'', trim (newMessage st))] False)]))
      | _ \<Rightarrow> (st, []))"

definition sendMessage_resume :: "unit response \<Rightarrow> RoomChatPage \<Rightarrow> RoomChatPage \<times> effect list" where
  "sendMessage_resume r st =
     (case error r of
        Some e \<Rightarrow>
          (st\<lparr>sending := False\<rparr>,
           [ConsoleError ''Error sending message:'', ToastError ''Failed to send message''])
      | None \<Rightarrow> (st\<lparr>newMessage := [], sending := False\<rparr>, []))"

definition sendMessage :: "unit response \<Rightarrow> RoomChatPage \<Rightarrow> RoomChatPage \<times> effect list" where
  "sendMessage r st =
     (if sendMessage_guard st then (st, [])
      else
        (let (st1, es1) = sendMessage_issue st;
             (st2, es2) = sendMessage_resume r st1
         in (st2, es1 @ es2)))"

subsection \<open>The direct message window\<close>

text \<open>
  The window's state hooks and its prop \<^verbatim>\<open>otherUserId\<close>. Names that the room page
  already uses carry the suffix \<open>_dm\<close>.
\<close>

record DirectMessageWindow =
  user_dm :: "string option"
  otherUserId :: string
  messages_dm :: "DirectMessage list"
  newMessage_dm :: string
  otherUser :: "OtherUser option"
  loading_dm :: bool
  sending_dm :: bool

text \<open>\<^verbatim>\<open>${user?.id}\<close> in a template string renders a missing user as \<^verbatim>\<open>undefined\<close>.\<close>

definition user_text :: "string option \<Rightarrow> string" where
  "user_text u = (case u of None \<Rightarrow> ''undefined'' | Some uid \<Rightarrow> uid)"

definition loadOtherUser_query :: "string \<Rightarrow> query" where
  "loadOtherUser_query other =
     \<lparr>q_table = ''profiles'', q_columns = ''id, username, display_name, avatar_url'',
      q_filter = Some (Eq ''id'' other), q_order = None, q_limit = None, q_single = True\<rparr>"

definition loadOtherUser_resume ::
  "OtherUser response \<Rightarrow> DirectMessageWindow \<Rightarrow> DirectMessageWindow \<times> effect list" where
  "loadOtherUser_resume r st =
     (case error r of
        Some e \<Rightarrow> (st, [ConsoleError ''Error loading user:'', ToastError ''Failed to load user information''])
      | None \<Rightarrow> (st\<lparr>otherUser := data r\<rparr>, []))"

definition pair_filter :: "string \<Rightarrow> string \<Rightarrow> filter" where
  "pair_filter me other =
     Or (And (Eq ''sender_id'' me) (Eq ''receiver_id'' other))
        (And (Eq ''sender_id'' other) (Eq ''receiver_id'' me))"

definition loadMessages_dm_query :: "string option \<Rightarrow> string \<Rightarrow> query" where
  "loadMessages_dm_query u other =
     \<lparr>q_table = ''direct_messages'', q_columns = ''*'',
      q_filter = Some (pair_filter (user_text u) other),
      q_order = Some (''created_at'', True), q_limit = Some 50, q_single = False\<rparr>"

definition loadMessages_dm_issue :: "DirectMessageWindow \<Rightarrow> effect list" where
  "loadMessages_dm_issue st = [Request (Select (loadMessages_dm_query (user_dm st) (otherUserId st)))]"

definition loadMessages_dm_resume ::
  "DirectMessage list response \<Rightarrow> DirectMessageWindow \<Rightarrow> DirectMessageWindow \<times> effect list" where
  "loadMessages_dm_resume r st =
     (case error r of
        Some e \<Rightarrow>
          (st\<lparr>loading_dm := False\<rparr>,
           [ConsoleError ''Error loading messages:'', ToastError ''Failed to load messages''])
      | None \<Rightarrow>
          (st\<lparr>messages_dm := (case data r of None \<Rightarrow> [] | Some d \<Rightarrow> d), loading_dm := False\<rparr>, []))"

definition loadMessages_dm ::
  "DirectMessage list response \<Rightarrow> DirectMessageWindow \<Rightarrow> DirectMessageWindow \<times> effect list" where
  "loadMessages_dm r st =
     (let (st', es) = loadMessages_dm_resume r st in (st', loadMessages_dm_issue st @ es))"

text \<open>
  The channel has no filter: the handler itself keeps the rows of this conversation,
  with the user and the peer it captured when the channel was opened, and appends the
  event's row as it is.
\<close>

definition dm_channel :: channel where
  "dm_channel = \<lparr>ch_name = ''direct-messages'', ch_table = ''direct_messages'', ch_filter = None\<rparr>"

definition subscribeToMessages_dm :: "effect list \<times> channel" where
  "subscribeToMessages_dm = ([ChannelSubscribe dm_channel], dm_channel)"

definition in_conversation :: "string option \<Rightarrow> string \<Rightarrow> DirectMessage \<Rightarrow> bool" where
  "in_conversation u other newMsg =
     ((Some (dm_sender_id newMsg) = u \<and> dm_receiver_id newMsg = other) \<or>
      (dm_sender_id newMsg = other \<and> Some (dm_receiver_id newMsg) = u))"

definition onInsert_dm ::
  "string option \<Rightarrow> string \<Rightarrow> DirectMessage \<Rightarrow> DirectMessageWindow \<Rightarrow> DirectMessageWindow \<times> effect list" where
  "onInsert_dm u other newMsg st =
     (if in_conversation u other newMsg then (st\<lparr>messages_dm := messages_dm st @ [newMsg]\<rparr>, [])
      else (st, []))"

text \<open>
  The effect on \<^verbatim>\<open>[otherUserId, user]\<close>: it returns the closure that removes the channel
  it opened, which React runs before the next run of the effect.
\<close>

definition conversation_effect :: "DirectMessageWindow \<Rightarrow> effect list \<times> channel option" where
  "conversation_effect st =
     (if truthy (otherUserId st) \<and> user_dm st \<noteq> None then
        (let (es, unsubscribe) = subscribeToMessages_dm
         in (es @ [Request (Select (loadOtherUser_query (otherUserId st)))]
                @ loadMessages_dm_issue st, Some unsubscribe))
      else ([], None))"

type_synonym dm_world = "DirectMessageWindow \<times> channel option"

text \<open>The parent renders the window with another \<^verbatim>\<open>otherUserId\<close>.\<close>

definition setOtherUserId :: "string \<Rightarrow> dm_world \<Rightarrow> dm_world \<times> effect list" where
  "setOtherUserId other w =
     (case w of (st, cl) \<Rightarrow>
        (if otherUserId st = other then (w, [])
         else
           (let st' = st\<lparr>otherUserId := other\<rparr>;
                (es, cl') = conversation_effect st'
            in ((st', cl'), run_cleanup cl @ es))))"

definition sendMessage_dm_guard :: "DirectMessageWindow \<Rightarrow> bool" where
  "sendMessage_dm_guard st = (user_dm st = None \<or> \<not> truthy (trim (newMessage_dm st)))"

definition sendMessage_dm_issue :: "DirectMessageWindow \<Rightarrow> DirectMessageWindow \<times> effect list" where
  "sendMessage_dm_issue st =
     (case user_dm st of
        Some uid \<Rightarrow>
          (if \<not> truthy (trim (newMessage_dm st)) then (st, [])
           else (st\<lparr>sending_dm := True\<rparr>,
                 [Request (Insert ''direct_messages''
                    [(''sender_id'', uid),
                     (''receiver_id'', otherUserId st),
                     (''content'', trim (newMessage_dm st))] False)]))
      | None \<Rightarrow> (st, []))"

definition sendMessage_dm_resume ::
  "unit response \<Rightarrow> DirectMessageWindow \<Rightarrow> DirectMessageWindow \<times> effect list" where
  "sendMessage_dm_resume r st =
     (case error r of
        Some e \<Rightarrow>
          (st\<lparr>sending_dm := False\<rparr>,
           [ConsoleError ''Error sending message:'', ToastError ''Failed to send message''])
      | None \<Rightarrow> (st\<lparr>newMessage_dm := [], sending_dm := False\<rparr>, []))"

definition sendMessage_dm ::
  "unit response \<Rightarrow> DirectMessageWindow \<Rightarrow> DirectMessageWindow \<times> effect list" where
  "sendMessage_dm r st =
     (if sendMessage_dm_guard st then (st, [])
      else
        (let (st1, es1) = sendMessage_dm_issue st;
             (st2, es2) = sendMessage_dm_resume r st1
         in (st2, es1 @ es2)))"

subsection \<open>The composer as the user drives it\<close>

text \<open>
  \<^verbatim>\<open>sendMessage\<close> is reached through the input's \<^verbatim>\<open>onKeyPress\<close> and the button's
  \<^verbatim>\<open>onClick\<close> only. The input carries \<^verbatim>\<open>disabled={sending}\<close> and the button
  \<^verbatim>\<open>disabled={!newMessage.trim() || sending}\<close>; a disabled control delivers no event.
  The second component of the composer counts the inserts that were issued and are not
  answered yet; an answer resumes \<^verbatim>\<open>sendMessage\<close> after its \<^verbatim>\<open>await\<close>.
\<close>

datatype ui_event =
    Change string
  | KeyPress string bool
  | Click
  | Answer "unit response"

definition input_disabled :: "DirectMessageWindow \<Rightarrow> bool" where
  "input_disabled st = sending_dm st"

definition button_disabled :: "DirectMessageWindow \<Rightarrow> bool" where
  "button_disabled st = (\<not> truthy (trim (newMessage_dm st)) \<or> sending_dm st)"

type_synonym composer = "DirectMessageWindow \<times> nat"

definition call_sendMessage_dm :: "composer \<Rightarrow> composer \<times> effect list" where
  "call_sendMessage_dm w =
     (case w of (st, pending) \<Rightarrow>
        (if sendMessage_dm_guard st then (w, [])
         else (let (st1, es) = sendMessage_dm_issue st
               in ((st1, pending + length (inserts es)), es))))"

fun ui_step :: "ui_event \<Rightarrow> composer \<Rightarrow> composer \<times> effect list" where
  "ui_step (Change v) (st, pending) =
     (if input_disabled st then ((st, pending), [])
      else ((st\<lparr>newMessage_dm := v\<rparr>, pending), []))"
| "ui_step (KeyPress k shiftKey) (st, pending) =
     (if input_disabled st then ((st, pending), [])
      else if k = ''Enter'' \<and> \<not> shiftKey then call_sendMessage_dm (st, pending)
      else ((st, pending), []))"
| "ui_step Click (st, pending) =
     (if button_disabled st then ((st, pending), [])
      else call_sendMessage_dm (st, pending))"
| "ui_step (Answer r) (st, pending) =
     (if pending = 0 then ((st, pending), [])
      else (let (st', es) = sendMessage_dm_resume r st in ((st', pending - 1), es)))"

fun ui_run :: "ui_event list \<Rightarrow> composer \<Rightarrow> composer \<times> effect list" where
  "ui_run [] w = (w, [])"
| "ui_run (ev # evs) w =
     (let (w1, es1) = ui_step ev w; (w2, es2) = ui_run evs w1 in (w2, es1 @ es2))"

subsection \<open>A reference remote\<close>

text \<open>
  Modelled from the spec: the remote data client of section 6, an external service whose
  code is not part of the repository: \<^verbatim>\<open>select(table, filter, order, limit)\<close> returns
  the rows of the table that satisfy the filter, in the order asked for, cut at the
  limit, and \<^verbatim>\<open>insert(table, row)\<close> stores the row with a server-assigned id and
  timestamp and returns it. The tables are those of section 6. Row-level security is
  left out: every stored row is visible. A request for another table, for a list of
  columns other than the two the typed rows stand for, or in the wrong mode (one row
  where a list is read, or the reverse) is answered with an error.
\<close>

record remote =
  rooms_table :: "Room list"
  room_messages_table :: "RoomMessageRow list"
  direct_messages_table :: "DirectMessage list"
  profiles_table :: "(string \<times> Profiles) list"

fun holds :: "(string \<Rightarrow> string option) \<Rightarrow> filter \<Rightarrow> bool" where
  "holds col (Eq c v) = (col c = Some v)"
| "holds col (And f g) = (holds col f \<and> holds col g)"
| "holds col (Or f g) = (holds col f \<or> holds col g)"

definition row_column :: "RoomMessageRow \<Rightarrow> string \<Rightarrow> string option" where
  "row_column r c =
     (if c = ''id'' then Some (row_id r)
      else if c = ''room_id'' then Some (row_room_id r)
      else if c = ''sender_id'' then Some (row_sender_id r)
      else if c = ''content'' then Some (row_content r)
      else None)"

definition dm_column :: "DirectMessage \<Rightarrow> string \<Rightarrow> string option" where
  "dm_column m c =
     (if c = ''id'' then Some (dm_id m)
      else if c = ''sender_id'' then Some (dm_sender_id m)
      else if c = ''receiver_id'' then Some (dm_receiver_id m)
      else if c = ''content'' then Some (dm_content m)
      else None)"

definition select_rows ::
  "('r \<Rightarrow> string \<Rightarrow> string option) \<Rightarrow> ('r \<Rightarrow> nat) \<Rightarrow> query \<Rightarrow> 'r list \<Rightarrow> 'r list" where
  "select_rows col created q rows =
     (let fs = (case q_filter q of None \<Rightarrow> rows | Some f \<Rightarrow> filter (\<lambda>r. holds (col r) f) rows);
          os = (case q_order q of
                  None \<Rightarrow> fs
                | Some (c, ascending) \<Rightarrow>
                    (if c = ''created_at''
                     then (if ascending then sort_key created fs else rev (sort_key created fs))
                     else fs))
      in case q_limit q of None \<Rightarrow> os | Some n \<Rightarrow> take n os)"

text \<open>The join \<^verbatim>\<open>profiles:sender_id (...)\<close>: the sender's profile, when there is one.\<close>

definition hydrate :: "(string \<times> Profiles) list \<Rightarrow> RoomMessageRow \<Rightarrow> RoomMessage" where
  "hydrate profs r =
     \<lparr>rm_id = row_id r, rm_content = row_content r, rm_created_at = row_created_at r,
      rm_sender_id = row_sender_id r, profiles = map_of profs (row_sender_id r)\<rparr>"

text \<open>The client sends the column list with its white space removed.\<close>

definition columns_asked :: "query \<Rightarrow> string" where
  "columns_asked q = filter (\<lambda>c. \<not> is_whitespace c) (q_columns q)"

definition not_served :: RemoteError where
  "not_served = \<lparr>code = ''PGRST205'', message = ''Could not find the table in the schema cache''\<rparr>"

definition no_single_row :: RemoteError where
  "no_single_row = \<lparr>code = ''PGRST116'', message = ''JSON object requested, multiple (or no) rows returned''\<rparr>"

definition asks_room_messages :: "query \<Rightarrow> bool" where
  "asks_room_messages q =
     (q_table q = ''room_messages'' \<and>
      columns_asked q =
        ''id,content,created_at,sender_id,profiles:sender_id(username,display_name,avatar_url)'')"

definition remote_room_messages :: "remote \<Rightarrow> query \<Rightarrow> RoomMessage list response" where
  "remote_room_messages rem q =
     (if asks_room_messages q \<and> \<not> q_single q then
        \<lparr>data = Some (map (hydrate (profiles_table rem))
                        (select_rows row_column row_created_at q (room_messages_table rem))),
         error = None\<rparr>
      else \<lparr>data = None, error = Some not_served\<rparr>)"

definition remote_room_message :: "remote \<Rightarrow> query \<Rightarrow> RoomMessage response" where
  "remote_room_message rem q =
     (if asks_room_messages q \<and> q_single q then
        (case select_rows row_column row_created_at q (room_messages_table rem) of
           [r] \<Rightarrow> \<lparr>data = Some (hydrate (profiles_table rem) r), error = None\<rparr>
         | _ \<Rightarrow> \<lparr>data = None, error = Some no_single_row\<rparr>)
      else \<lparr>data = None, error = Some not_served\<rparr>)"

definition remote_direct_messages :: "remote \<Rightarrow> query \<Rightarrow> DirectMessage list response" where
  "remote_direct_messages rem q =
     (if q_table q = ''direct_messages'' \<and> columns_asked q = ''*'' \<and> \<not> q_single q then
        \<lparr>data = Some (select_rows dm_column dm_created_at q (direct_messages_table rem)),
         error = None\<rparr>
      else \<lparr>data = None, error = Some not_served\<rparr>)"




subsection \<open>Spec-side notions and sample data\<close>

text \<open>A text is blank when it is empty or holds white space only.\<close>

definition blank :: "string \<Rightarrow> bool" where
  "blank s = list_all is_whitespace s"

definition ok :: "'a \<Rightarrow> 'a response" where
  "ok d = \<lparr>data = Some d, error = None\<rparr>"

definition failed :: "RemoteError \<Rightarrow> 'a response" where
  "failed e = \<lparr>data = None, error = Some e\<rparr>"

definition network_error :: RemoteError where
  "network_error = \<lparr>code = [], message = ''Failed to fetch''\<rparr>"

text \<open>The states right after mounting (the \<^verbatim>\<open>useState\<close> defaults), with a user signed in.\<close>

definition page0 :: RoomChatPage where
  "page0 =
     \<lparr>user = Some ''u1'', rooms = [], selectedRoom = None, messages = [], newMessage = [],
      newRoom_name = [], newRoom_description = [], loading = True, sending = False,
      isDialogOpen = False\<rparr>"

definition window0 :: DirectMessageWindow where
  "window0 =
     \<lparr>user_dm = Some ''u1'', otherUserId = ''u2'', messages_dm = [], newMessage_dm = [],
      otherUser = None, loading_dm = True, sending_dm = False\<rparr>"

definition roomA :: Room where
  "roomA = \<lparr>room_id = ''A'', room_name = ''General'', room_description = None,
            room_created_at = 1, owner_id = ''u1''\<rparr>"

definition roomB :: Room where
  "roomB = \<lparr>room_id = ''B'', room_name = ''Random'', room_description = None,
            room_created_at = 2, owner_id = ''u2''\<rparr>"

definition ann :: Profiles where
  "ann = \<lparr>username = ''ann'', display_name = None, avatar_url = None\<rparr>"

definition row3 :: RoomMessageRow where
  "row3 = \<lparr>row_id = ''3'', row_room_id = ''A'', row_sender_id = ''u1'', row_content = ''first'',
           row_created_at = 3\<rparr>"

definition row5 :: RoomMessageRow where
  "row5 = \<lparr>row_id = ''5'', row_room_id = ''A'', row_sender_id = ''u1'', row_content = ''second'',
           row_created_at = 5\<rparr>"

definition msg3 :: RoomMessage where
  "msg3 = hydrate [(''u1'', ann)] row3"

definition msg5 :: RoomMessage where
  "msg5 = hydrate [(''u1'', ann)] row5"

definition remote0 :: remote where
  "remote0 =
     \<lparr>rooms_table = [roomA, roomB], room_messages_table = [row5, row3],
      direct_messages_table = [], profiles_table = [(''u1'', ann)]\<rparr>"

definition dm7 :: DirectMessage where
  "dm7 = \<lparr>dm_id = ''7'', dm_content = ''hi'', dm_created_at = 7, dm_sender_id = ''u2'',
          dm_receiver_id = ''u1''\<rparr>"

definition dm4 :: DirectMessage where
  "dm4 = \<lparr>dm_id = ''4'', dm_content = ''yo'', dm_created_at = 4, dm_sender_id = ''u1'',
          dm_receiver_id = ''u2''\<rparr>"

text \<open>
  The composer's bookkeeping is consistent when an insert is outstanding exactly while
  the \<^verbatim>\<open>sending\<close> flag is set.
\<close>

definition composer_ok :: "composer \<Rightarrow> bool" where
  "composer_ok w = (case w of (st, pending) \<Rightarrow> pending = (if sending_dm st then 1 else 0))"

section \<open>Properties\<close>

subsection \<open>Trimming\<close>

lemma trim_Nil_iff: "trim s = [] \<longleftrightarrow> (\<forall>c\<in>set s. is_whitespace c)"
proof
  assume "trim s = []"
  then have "dropWhile is_whitespace (rev (dropWhile is_whitespace s)) = []"
    by (simp add: trim_def)
  then have all: "\<forall>c\<in>set (dropWhile is_whitespace s). is_whitespace c"
    by (simp add: dropWhile_eq_Nil_conv)
  have "dropWhile is_whitespace s = []"
  proof (rule ccontr)
    assume ne: "dropWhile is_whitespace s \<noteq> []"
    then have "\<not> is_whitespace (hd (dropWhile is_whitespace s))"
      by (rule hd_dropWhile)
    moreover have "hd (dropWhile is_whitespace s) \<in> set (dropWhile is_whitespace s)"
      using ne by simp
    ultimately show False using all by blast
  qed
  then show "\<forall>c\<in>set s. is_whitespace c"
    by (simp add: dropWhile_eq_Nil_conv)
next
  assume "\<forall>c\<in>set s. is_whitespace c"
  then have "dropWhile is_whitespace s = []"
    by (simp add: dropWhile_eq_Nil_conv)
  then show "trim s = []"
    unfolding trim_def by (simp del: dropWhile_eq_Nil_conv)
qed

lemma truthy_trim: "truthy (trim s) \<longleftrightarrow> \<not> blank s"
  by (simp add: truthy_def trim_Nil_iff blank_def list_all_iff)

lemma trim_sample: "trim ''  hi there  '' = ''hi there''"
  by (simp add: trim_def is_whitespace_def)

lemma blank_sample: "blank [CHR 0x20, CHR 0x09, CHR 0xA0] \<and> \<not> blank '' hi ''"
  by (simp add: blank_def is_whitespace_def)

subsection \<open>Live events whose row cannot be fetched again\<close>

text \<open>
  Claim C10. In the room store, when an insert event arrives and the follow-up fetch of
  the row by its id brings no data (also when it failed), the event is dropped: the
  state, and the message sequence with it, is unchanged, and the only thing the handler
  did is the fetch itself: nothing is logged and no toast is shown.
\<close>

theorem refetch_without_data_drops_event:
  "data r = None \<Longrightarrow>
     fst (onInsert payload r st) = st \<and>
     snd (onInsert payload r st) = [Request (Select (refetch_query (row_id payload)))]"
  by (simp add: onInsert_def)

theorem refetch_without_data_drops_event_witness:
  "fst (onInsert row5 (failed network_error) (page0\<lparr>messages := [msg3]\<rparr>)) = page0\<lparr>messages := [msg3]\<rparr> \<and>
   snd (onInsert row5 (failed network_error) (page0\<lparr>messages := [msg3]\<rparr>)) =
     [Request (Select (refetch_query ''5''))]"
  using refetch_without_data_drops_event
    [of "failed network_error" row5 "page0\<lparr>messages := [msg3]\<rparr>"]
  by (simp add: failed_def row5_def)

subsection \<open>Sending\<close>

lemma sendMessage_rejects:
  "blank (newMessage st) \<or> user st = None \<or> selectedRoom st = None \<Longrightarrow>
     sendMessage r st = (st, [])"
  by (auto simp: sendMessage_def sendMessage_guard_def truthy_trim)

lemma sendMessage_dm_rejects:
  "blank (newMessage_dm w) \<or> user_dm w = None \<Longrightarrow> sendMessage_dm r w = (w, [])"
  by (auto simp: sendMessage_dm_def sendMessage_dm_guard_def truthy_trim)

text \<open>
  Claim C6. When the text is empty or white space only, or nobody is signed in, or (on
  the room page) no room is selected, sending does nothing: the state is unchanged and
  nothing is issued, so no insert reaches the remote client. This holds for the room
  composer and for the direct message composer.
\<close>

theorem send_rejected_issues_nothing:
  "(blank (newMessage st) \<or> user st = None \<or> selectedRoom st = None \<longrightarrow>
      sendMessage r st = (st, []) \<and> inserts (snd (sendMessage r st)) = []) \<and>
   (blank (newMessage_dm w) \<or> user_dm w = None \<longrightarrow>
      sendMessage_dm r' w = (w, []) \<and> inserts (snd (sendMessage_dm r' w)) = [])"
  by (simp add: sendMessage_rejects sendMessage_dm_rejects inserts_def requests_def)

theorem send_rejected_issues_nothing_witness:
  "blank ''   '' \<and>
   sendMessage (ok ()) (page0\<lparr>selectedRoom := Some roomA, newMessage := ''   ''\<rparr>) =
     (page0\<lparr>selectedRoom := Some roomA, newMessage := ''   ''\<rparr>, []) \<and>
   sendMessage_dm (ok ()) (window0\<lparr>user_dm := None, newMessage_dm := ''hi''\<rparr>) =
     (window0\<lparr>user_dm := None, newMessage_dm := ''hi''\<rparr>, [])"
  using send_rejected_issues_nothing
    [of "page0\<lparr>selectedRoom := Some roomA, newMessage := ''   ''\<rparr>" "ok ()"
        "window0\<lparr>user_dm := None, newMessage_dm := ''hi''\<rparr>" "ok ()"]
  by (simp add: blank_def is_whitespace_def page0_def window0_def)

lemma sendMessage_accepts:
  assumes "user st = Some uid" and "selectedRoom st = Some room" and "\<not> blank (newMessage st)"
  shows "sendMessage r st =
     (case error r of
        None \<Rightarrow>
          (st\<lparr>sending := True, newMessage := [], sending := False\<rparr>,
           [Request (Insert ''room_messages''
              [(''room_id'', room_id room), (''sender_id'', uid),
               (''content'', trim (newMessage st))] False)])
      | Some e \<Rightarrow>
          (st\<lparr>sending := True, sending := False\<rparr>,
           [Request (Insert ''room_messages''
              [(''room_id'', room_id room), (''sender_id'', uid),
               (''content'', trim (newMessage st))] False),
            ConsoleError ''Error sending message:'', ToastError ''Failed to send message'']))"
  using assms
  by (simp add: sendMessage_def sendMessage_guard_def sendMessage_issue_def
      sendMessage_resume_def truthy_trim split: option.split)

lemma sendMessage_dm_accepts:
  assumes "user_dm w = Some uid" and "\<not> blank (newMessage_dm w)"
  shows "sendMessage_dm r w =
     (case error r of
        None \<Rightarrow>
          (w\<lparr>sending_dm := True, newMessage_dm := [], sending_dm := False\<rparr>,
           [Request (Insert ''direct_messages''
              [(''sender_id'', uid), (''receiver_id'', otherUserId w),
               (''content'', trim (newMessage_dm w))] False)])
      | Some e \<Rightarrow>
          (w\<lparr>sending_dm := True, sending_dm := False\<rparr>,
           [Request (Insert ''direct_messages''
              [(''sender_id'', uid), (''receiver_id'', otherUserId w),
               (''content'', trim (newMessage_dm w))] False),
            ConsoleError ''Error sending message:'', ToastError ''Failed to send message'']))"
  using assms
  by (simp add: sendMessage_dm_def sendMessage_dm_guard_def sendMessage_dm_issue_def
      sendMessage_dm_resume_def truthy_trim split: option.split)

text \<open>
  Claim C7. With a user signed in (and, on the room page, a room selected), sending a
  text that is not blank issues exactly one insert, carrying the conversation key, the
  sender's id and the trimmed text. When the insert succeeds the input is cleared and
  nothing is reported; when it fails the error is logged, the toast
  \<^verbatim>\<open>Failed to send message\<close> is shown and the input keeps its text. Either way
  the \<^verbatim>\<open>sending\<close> flag is off again. This holds for both composers.
\<close>

theorem send_inserts_trimmed_text:
  "(user st = Some uid \<and> selectedRoom st = Some room \<and> \<not> blank (newMessage st) \<longrightarrow>
      inserts (snd (sendMessage r st)) =
        [Insert ''room_messages''
           [(''room_id'', room_id room), (''sender_id'', uid),
            (''content'', trim (newMessage st))] False] \<and>
      \<not> sending (fst (sendMessage r st)) \<and>
      (error r = None \<longrightarrow>
         newMessage (fst (sendMessage r st)) = [] \<and>
         snd (sendMessage r st) = map Request (inserts (snd (sendMessage r st)))) \<and>
      (error r \<noteq> None \<longrightarrow>
         newMessage (fst (sendMessage r st)) = newMessage st \<and>
         snd (sendMessage r st) =
           map Request (inserts (snd (sendMessage r st))) @
           [ConsoleError ''Error sending message:'', ToastError ''Failed to send message''])) \<and>
   (user_dm w = Some uid' \<and> \<not> blank (newMessage_dm w) \<longrightarrow>
      inserts (snd (sendMessage_dm r w)) =
        [Insert ''direct_messages''
           [(''sender_id'', uid'), (''receiver_id'', otherUserId w),
            (''content'', trim (newMessage_dm w))] False] \<and>
      \<not> sending_dm (fst (sendMessage_dm r w)) \<and>
      (error r = None \<longrightarrow>
         newMessage_dm (fst (sendMessage_dm r w)) = [] \<and>
         snd (sendMessage_dm r w) = map Request (inserts (snd (sendMessage_dm r w)))) \<and>
      (error r \<noteq> None \<longrightarrow>
         newMessage_dm (fst (sendMessage_dm r w)) = newMessage_dm w \<and>
         snd (sendMessage_dm r w) =
           map Request (inserts (snd (sendMessage_dm r w))) @
           [ConsoleError ''Error sending message:'', ToastError ''Failed to send message'']))"
proof (intro conjI impI)
  assume a: "user st = Some uid \<and> selectedRoom st = Some room \<and> \<not> blank (newMessage st)"
  have eq: "sendMessage r st =
     (case error r of
        None \<Rightarrow>
          (st\<lparr>sending := True, newMessage := [], sending := False\<rparr>,
           [Request (Insert ''room_messages''
              [(''room_id'', room_id room), (''sender_id'', uid),
               (''content'', trim (newMessage st))] False)])
      | Some e \<Rightarrow>
          (st\<lparr>sending := True, sending := False\<rparr>,
           [Request (Insert ''room_messages''
              [(''room_id'', room_id room), (''sender_id'', uid),
               (''content'', trim (newMessage st))] False),
            ConsoleError ''Error sending message:'', ToastError ''Failed to send message'']))"
    using a by (intro sendMessage_accepts) simp_all
  show "inserts (snd (sendMessage r st)) =
        [Insert ''room_messages''
           [(''room_id'', room_id room), (''sender_id'', uid),
            (''content'', trim (newMessage st))] False]"
    by (simp add: eq inserts_def requests_def split: option.split)
  show "\<not> sending (fst (sendMessage r st))"
    by (simp add: eq split: option.split)
  {
    assume "error r = None"
    then show "newMessage (fst (sendMessage r st)) = []"
      and "snd (sendMessage r st) = map Request (inserts (snd (sendMessage r st)))"
      by (simp_all add: eq inserts_def requests_def)
  }
  {
    assume "error r \<noteq> None"
    then show "newMessage (fst (sendMessage r st)) = newMessage st"
      and "snd (sendMessage r st) =
           map Request (inserts (snd (sendMessage r st))) @
           [ConsoleError ''Error sending message:'', ToastError ''Failed to send message'']"
      by (auto simp: eq inserts_def requests_def)
  }
next
  assume a: "user_dm w = Some uid' \<and> \<not> blank (newMessage_dm w)"
  have eq: "sendMessage_dm r w =
     (case error r of
        None \<Rightarrow>
          (w\<lparr>sending_dm := True, newMessage_dm := [], sending_dm := False\<rparr>,
           [Request (Insert ''direct_messages''
              [(''sender_id'', uid'), (''receiver_id'', otherUserId w),
               (''content'', trim (newMessage_dm w))] False)])
      | Some e \<Rightarrow>
          (w\<lparr>sending_dm := True, sending_dm := False\<rparr>,
           [Request (Insert ''direct_messages''
              [(''sender_id'', uid'), (''receiver_id'', otherUserId w),
               (''content'', trim (newMessage_dm w))] False),
            ConsoleError ''Error sending message:'', ToastError ''Failed to send message'']))"
    using a by (intro sendMessage_dm_accepts) simp_all
  show "inserts (snd (sendMessage_dm r w)) =
        [Insert ''direct_messages''
           [(''sender_id'', uid'), (''receiver_id'', otherUserId w),
            (''content'', trim (newMessage_dm w))] False]"
    by (simp add: eq inserts_def requests_def split: option.split)
  show "\<not> sending_dm (fst (sendMessage_dm r w))"
    by (simp add: eq split: option.split)
  {
    assume "error r = None"
    then show "newMessage_dm (fst (sendMessage_dm r w)) = []"
      and "snd (sendMessage_dm r w) = map Request (inserts (snd (sendMessage_dm r w)))"
      by (simp_all add: eq inserts_def requests_def)
  }
  {
    assume "error r \<noteq> None"
    then show "newMessage_dm (fst (sendMessage_dm r w)) = newMessage_dm w"
      and "snd (sendMessage_dm r w) =
           map Request (inserts (snd (sendMessage_dm r w))) @
           [ConsoleError ''Error sending message:'', ToastError ''Failed to send message'']"
      by (auto simp: eq inserts_def requests_def)
  }
qed

theorem send_inserts_trimmed_text_witness:
  "\<not> blank '' hi '' \<and>
   inserts (snd (sendMessage (failed network_error)
                   (page0\<lparr>selectedRoom := Some roomA, newMessage := '' hi ''\<rparr>))) =
     [Insert ''room_messages'' [(''room_id'', ''A''), (''sender_id'', ''u1''), (''content'', ''hi'')] False] \<and>
   newMessage (fst (sendMessage (failed network_error)
                      (page0\<lparr>selectedRoom := Some roomA, newMessage := '' hi ''\<rparr>))) = '' hi '' \<and>
   inserts (snd (sendMessage_dm (failed network_error) (window0\<lparr>newMessage_dm := '' hi ''\<rparr>))) =
     [Insert ''direct_messages'' [(''sender_id'', ''u1''), (''receiver_id'', ''u2''), (''content'', ''hi'')] False] \<and>
   newMessage_dm (fst (sendMessage_dm (failed network_error) (window0\<lparr>newMessage_dm := '' hi ''\<rparr>))) = '' hi ''"
  using send_inserts_trimmed_text
    [of "page0\<lparr>selectedRoom := Some roomA, newMessage := '' hi ''\<rparr>" "''u1''" roomA
        "failed network_error" "window0\<lparr>newMessage_dm := '' hi ''\<rparr>" "''u1''"]
  by (simp add: blank_def is_whitespace_def page0_def window0_def roomA_def failed_def trim_def)

subsection \<open>What the reference remote returns\<close>

lemma select_rows_sorted:
  assumes "q_order q = Some (''created_at'', True)"
  shows "sorted (map created (select_rows col created q rows))"
proof -
  have "sorted (map created (take n (sort_key created xs)))" for n xs
    unfolding take_map [symmetric] by (rule sorted_wrt_take) simp
  then show ?thesis
    using assms by (simp add: select_rows_def Let_def split: option.split)
qed

lemma select_rows_limit:
  assumes "q_limit q = Some n"
  shows "length (select_rows col created q rows) \<le> n"
  using assms by (simp add: select_rows_def Let_def)

lemma select_rows_subset:
  assumes "q_filter q = Some f"
  shows "set (select_rows col created q rows) \<subseteq> {r \<in> set rows. holds (col r) f}"
proof -
  let ?fs = "filter (\<lambda>r. holds (col r) f) rows"
  have "set (select_rows col created q rows) \<subseteq> set ?fs"
    using assms
    by (auto simp: select_rows_def Let_def split: option.split dest: in_set_takeD)
  then show ?thesis by auto
qed


lemma select_rows_by_id:
  "select_rows row_column row_created_at (refetch_query i) rows = filter (\<lambda>r. row_id r = i) rows"
  by (simp add: select_rows_def refetch_query_def row_column_def)

lemma holds_room_id: "holds (row_column r) (Eq ''room_id'' roomId) \<longleftrightarrow> row_room_id r = roomId"
  by (simp add: row_column_def)

lemma holds_pair_filter:
  "holds (dm_column m) (pair_filter me other) \<longleftrightarrow> in_conversation (Some me) other m"
  by (auto simp: pair_filter_def dm_column_def in_conversation_def)

lemma created_at_hydrate: "map rm_created_at (map (hydrate profs) rows) = map row_created_at rows"
  by (simp add: hydrate_def)

lemma loadMessages_success:
  "error r = None \<Longrightarrow>
     loadMessages roomId r st =
       (st\<lparr>messages := (case data r of None \<Rightarrow> [] | Some d \<Rightarrow> d)\<rparr>,
        [Request (Select (loadMessages_query roomId))])"
  by (simp add: loadMessages_def loadMessages_resume_def loadMessages_issue_def)

lemma loadMessages_failure:
  "error r = Some e \<Longrightarrow>
     loadMessages roomId r st =
       (st, [Request (Select (loadMessages_query roomId)),
             ConsoleError ''Error loading messages:'', ToastError ''Failed to load messages''])"
  by (simp add: loadMessages_def loadMessages_resume_def loadMessages_issue_def)

lemma loadMessages_dm_success:
  "error r = None \<Longrightarrow>
     loadMessages_dm r w =
       (w\<lparr>messages_dm := (case data r of None \<Rightarrow> [] | Some d \<Rightarrow> d), loading_dm := False\<rparr>,
        [Request (Select (loadMessages_dm_query (user_dm w) (otherUserId w)))])"
  by (simp add: loadMessages_dm_def loadMessages_dm_resume_def loadMessages_dm_issue_def)

lemma loadMessages_dm_failure:
  "error r = Some e \<Longrightarrow>
     loadMessages_dm r w =
       (w\<lparr>loading_dm := False\<rparr>,
        [Request (Select (loadMessages_dm_query (user_dm w) (otherUserId w))),
         ConsoleError ''Error loading messages:'', ToastError ''Failed to load messages''])"
  by (simp add: loadMessages_dm_def loadMessages_dm_resume_def loadMessages_dm_issue_def)

lemma onInsert_appends:
  "data r = Some d \<Longrightarrow>
     onInsert payload r st =
       (st\<lparr>messages := messages st @ [d]\<rparr>, [Request (Select (refetch_query (row_id payload)))])"
  by (simp add: onInsert_def)

lemma onInsert_dm_appends:
  "in_conversation u other m \<Longrightarrow>
     onInsert_dm u other m w = (w\<lparr>messages_dm := messages_dm w @ [m]\<rparr>, [])"
  by (simp add: onInsert_dm_def)

lemma onInsert_dm_ignores:
  "\<not> in_conversation u other m \<Longrightarrow> onInsert_dm u other m w = (w, [])"
  by (simp add: onInsert_dm_def)

lemma sorted_snoc_iff:
  "sorted (map f (xs @ [x])) \<longleftrightarrow> sorted (map f xs) \<and> (\<forall>y\<in>set xs. f y \<le> (f x :: nat))"
  by (auto simp: sorted_append)

lemma distinct_snoc_iff:
  "distinct (map f (xs @ [x])) \<longleftrightarrow> distinct (map f xs) \<and> f x \<notin> f ` set xs"
  by auto

lemma asks_room_messages_code:
  "asks_room_messages (loadMessages_query roomId)"
  "asks_room_messages (refetch_query mid)"
  by (simp_all add: asks_room_messages_def columns_asked_def loadMessages_query_def
      refetch_query_def room_message_columns_def is_whitespace_def)

lemma remote_room_messages_load:
  "remote_room_messages rem (loadMessages_query roomId) =
     \<lparr>data = Some (map (hydrate (profiles_table rem))
                     (select_rows row_column row_created_at (loadMessages_query roomId)
                        (room_messages_table rem))),
      error = None\<rparr>"
  by (simp add: remote_room_messages_def asks_room_messages_code) (simp add: loadMessages_query_def)

lemma remote_room_message_refetch:
  "remote_room_message rem (refetch_query mid) =
     (case filter (\<lambda>r. row_id r = mid) (room_messages_table rem) of
        [r] \<Rightarrow> \<lparr>data = Some (hydrate (profiles_table rem) r), error = None\<rparr>
      | _ \<Rightarrow> \<lparr>data = None, error = Some no_single_row\<rparr>)"
proof -
  have "q_single (refetch_query mid)"
    by (simp add: refetch_query_def)
  then show ?thesis
    by (simp add: remote_room_message_def asks_room_messages_code select_rows_by_id)
qed

lemma remote_direct_messages_load:
  "remote_direct_messages rem (loadMessages_dm_query u other) =
     \<lparr>data = Some (select_rows dm_column dm_created_at (loadMessages_dm_query u other)
                     (direct_messages_table rem)),
      error = None\<rparr>"
  by (simp add: remote_direct_messages_def columns_asked_def is_whitespace_def)
     (simp add: loadMessages_dm_query_def)

lemma remote_samples:
  "remote_room_messages remote0 (loadMessages_query ''A'') = ok [msg3, msg5]"
  "remote_room_message remote0 (refetch_query ''5'') = ok msg5"
  "remote_room_message remote0 (refetch_query ''3'') = ok msg3"
  "remote_room_message remote0 (refetch_query ''9'') = failed no_single_row"
  unfolding remote_room_messages_load remote_room_message_refetch
  by (simp_all add: select_rows_def loadMessages_query_def remote0_def row3_def row5_def
      msg3_def msg5_def row_column_def ok_def failed_def)

subsection \<open>Appending live messages\<close>

text \<open>
  Claim C1, as stated, fails: a message whose id the store already holds is appended
  again. The page loads room A, which returns the messages 3 and 5, and then handles the
  insert event of message 5 (the load and the subscription overlap): id 5 is held twice.
\<close>

theorem append_same_id_counterexample:
  "map rm_id (messages (fst (onInsert row5 (remote_room_message remote0 (refetch_query ''5''))
                 (fst (loadMessages ''A'' (remote_room_messages remote0 (loadMessages_query ''A''))
                        page0))))) = [''3'', ''5'', ''5''] \<and>
   \<not> distinct (map rm_id (messages (fst (onInsert row5 (remote_room_message remote0 (refetch_query ''5''))
                 (fst (loadMessages ''A'' (remote_room_messages remote0 (loadMessages_query ''A''))
                        page0))))))"
  by (simp add: remote_samples ok_def loadMessages_success onInsert_appends
      msg3_def msg5_def row3_def row5_def hydrate_def)

text \<open>
  Claim C1, amended. Appending is unconditional. In the room store every event whose
  re-fetch returned a row adds that row at the end of the sequence, and in the direct
  store every event whose row belongs to the conversation adds it at the end, whether or
  not the id is already present. So the ids are distinct after an append exactly when
  they were distinct before and the new id was not among them.
\<close>

theorem append_is_unconditional:
  "(data r = Some d \<longrightarrow>
      messages (fst (onInsert payload r st)) = messages st @ [d] \<and>
      (distinct (map rm_id (messages (fst (onInsert payload r st)))) \<longleftrightarrow>
         distinct (map rm_id (messages st)) \<and> rm_id d \<notin> rm_id ` set (messages st))) \<and>
   (in_conversation u other m \<longrightarrow>
      messages_dm (fst (onInsert_dm u other m w)) = messages_dm w @ [m] \<and>
      (distinct (map dm_id (messages_dm (fst (onInsert_dm u other m w)))) \<longleftrightarrow>
         distinct (map dm_id (messages_dm w)) \<and> dm_id m \<notin> dm_id ` set (messages_dm w)))"
  by (simp add: onInsert_appends onInsert_dm_appends distinct_snoc_iff del: map_append)

theorem append_is_unconditional_witness:
  "messages (fst (onInsert row5 (ok msg5) (page0\<lparr>messages := [msg5]\<rparr>))) = [msg5, msg5] \<and>
   in_conversation (Some ''u1'') ''u2'' dm7 \<and>
   messages_dm (fst (onInsert_dm (Some ''u1'') ''u2'' dm7 (window0\<lparr>messages_dm := [dm7]\<rparr>))) = [dm7, dm7]"
  using append_is_unconditional
    [of "ok msg5" msg5 row5 "page0\<lparr>messages := [msg5]\<rparr>" "Some ''u1''" "''u2''" dm7
        "window0\<lparr>messages_dm := [dm7]\<rparr>"]
  by (simp add: ok_def in_conversation_def dm7_def)

subsection \<open>Order of the sequence\<close>

text \<open>
  Claim C2, as stated, fails: after two live appends the sequence need not be ordered by
  \<^verbatim>\<open>created_at\<close>. The page handles the event of message 5 and then the event of
  message 3, whose fetch was answered later: the sequence is 5, 3.
\<close>

theorem append_out_of_order_counterexample:
  "map rm_created_at (messages (fst (onInsert row3 (remote_room_message remote0 (refetch_query ''3''))
                 (fst (onInsert row5 (remote_room_message remote0 (refetch_query ''5'')) page0))))) = [5, 3] \<and>
   \<not> sorted (map rm_created_at (messages (fst (onInsert row3 (remote_room_message remote0 (refetch_query ''3''))
                 (fst (onInsert row5 (remote_room_message remote0 (refetch_query ''5'')) page0))))))"
  by (simp add: remote_samples ok_def onInsert_appends page0_def
      msg3_def msg5_def row3_def row5_def hydrate_def)

text \<open>
  Claim C2, amended. After a load that succeeded the sequence is the list of rows the
  remote returned for a query that asks for ascending \<^verbatim>\<open>created_at\<close>; with the
  reference remote that list is non-decreasing by \<^verbatim>\<open>created_at\<close>. An append puts the
  message at the end and sorts nothing, so after it the sequence is non-decreasing
  exactly when it was before and no message already present is later than the new one.
  This holds for the room store and for the direct store.
\<close>

theorem order_after_load_and_append:
  "sorted (map rm_created_at
     (messages (fst (loadMessages roomId (remote_room_messages rem (loadMessages_query roomId)) st)))) \<and>
   sorted (map dm_created_at
     (messages_dm (fst (loadMessages_dm
        (remote_direct_messages rem (loadMessages_dm_query (user_dm w) (otherUserId w))) w)))) \<and>
   (data r = Some d \<longrightarrow>
      (sorted (map rm_created_at (messages (fst (onInsert payload r st)))) \<longleftrightarrow>
         sorted (map rm_created_at (messages st)) \<and>
         (\<forall>x\<in>set (messages st). rm_created_at x \<le> rm_created_at d))) \<and>
   (in_conversation u other m \<longrightarrow>
      (sorted (map dm_created_at (messages_dm (fst (onInsert_dm u other m w)))) \<longleftrightarrow>
         sorted (map dm_created_at (messages_dm w)) \<and>
         (\<forall>x\<in>set (messages_dm w). dm_created_at x \<le> dm_created_at m)))"
proof (intro conjI impI)
  have "q_order (loadMessages_query roomId) = Some (''created_at'', True)"
    by (simp add: loadMessages_query_def)
  then have "sorted (map row_created_at
      (select_rows row_column row_created_at (loadMessages_query roomId) (room_messages_table rem)))"
    by (rule select_rows_sorted)
  then show "sorted (map rm_created_at
     (messages (fst (loadMessages roomId (remote_room_messages rem (loadMessages_query roomId)) st))))"
    by (simp add: loadMessages_success remote_room_messages_load created_at_hydrate del: map_map)
next
  have "q_order (loadMessages_dm_query (user_dm w) (otherUserId w)) = Some (''created_at'', True)"
    by (simp add: loadMessages_dm_query_def)
  then have "sorted (map dm_created_at
      (select_rows dm_column dm_created_at (loadMessages_dm_query (user_dm w) (otherUserId w))
         (direct_messages_table rem)))"
    by (rule select_rows_sorted)
  then show "sorted (map dm_created_at
     (messages_dm (fst (loadMessages_dm
        (remote_direct_messages rem (loadMessages_dm_query (user_dm w) (otherUserId w))) w))))"
    by (simp add: loadMessages_dm_success remote_direct_messages_load)
next
  assume "data r = Some d"
  then show "sorted (map rm_created_at (messages (fst (onInsert payload r st)))) \<longleftrightarrow>
         sorted (map rm_created_at (messages st)) \<and>
         (\<forall>x\<in>set (messages st). rm_created_at x \<le> rm_created_at d)"
    by (simp add: onInsert_appends sorted_snoc_iff del: map_append)
next
  assume "in_conversation u other m"
  then show "sorted (map dm_created_at (messages_dm (fst (onInsert_dm u other m w)))) \<longleftrightarrow>
         sorted (map dm_created_at (messages_dm w)) \<and>
         (\<forall>x\<in>set (messages_dm w). dm_created_at x \<le> dm_created_at m)"
    by (simp add: onInsert_dm_appends sorted_snoc_iff del: map_append)
qed

theorem order_after_load_and_append_witness:
  "map rm_created_at
     (messages (fst (loadMessages ''A'' (remote_room_messages remote0 (loadMessages_query ''A'')) page0)))
     = [3, 5] \<and>
   sorted (map rm_created_at (messages (fst (onInsert row5 (ok msg5) (page0\<lparr>messages := [msg3]\<rparr>))))) \<and>
   in_conversation (Some ''u1'') ''u2'' dm7 \<and>
   sorted (map dm_created_at
     (messages_dm (fst (onInsert_dm (Some ''u1'') ''u2'' dm7 (window0\<lparr>messages_dm := [dm4]\<rparr>)))))"
  using order_after_load_and_append
    [of "''A''" remote0 page0 window0 "ok msg5" msg5 row5 "Some ''u1''" "''u2''" dm7]
    order_after_load_and_append
    [of "''A''" remote0 "page0\<lparr>messages := [msg3]\<rparr>" "window0\<lparr>messages_dm := [dm4]\<rparr>"
        "ok msg5" msg5 row5 "Some ''u1''" "''u2''" dm7]
  by (simp add: remote_samples ok_def loadMessages_success in_conversation_def
      dm7_def dm4_def msg3_def msg5_def row3_def row5_def hydrate_def)

subsection \<open>Re-fetching the row of a live event\<close>

text \<open>
  Claim C4, as stated, fails for the direct store: its handler fetches nothing. An event
  whose row belongs to the conversation is appended as it was delivered, and the
  handler issues no request at all.
\<close>

theorem direct_event_not_refetched_counterexample:
  "in_conversation (Some ''u1'') ''u2'' dm7 \<and>
   requests (snd (onInsert_dm (Some ''u1'') ''u2'' dm7 window0)) = [] \<and>
   messages_dm (fst (onInsert_dm (Some ''u1'') ''u2'' dm7 window0)) = [dm7]"
  by (simp add: in_conversation_def onInsert_dm_def dm7_def window0_def requests_def)

text \<open>
  Claim C4, amended. In the room store every delivered insert event (the channel is
  filtered by \<^verbatim>\<open>room_id\<close> on the server) makes the handler fetch the single row with
  the id of the event's row, with the sender's profile joined, and what is appended is
  the fetched row, when the fetch returned one; with the reference remote, where the
  event's row is the only stored row of that id, that is the event's row together with
  the sender's profile. The direct store does not fetch again: it keeps the rows of the
  pair itself and appends the event's row as delivered, and it ignores every other row.
\<close>

theorem live_event_delivery:
  "snd (onInsert payload r st) = [Request (Select (refetch_query (row_id payload)))] \<and>
   q_single (refetch_query (row_id payload)) \<and>
   q_filter (refetch_query (row_id payload)) = Some (Eq ''id'' (row_id payload)) \<and>
   q_columns (refetch_query (row_id payload)) = room_message_columns \<and>
   (data r = Some d \<longrightarrow> messages (fst (onInsert payload r st)) = messages st @ [d]) \<and>
   (filter (\<lambda>x. row_id x = row_id payload) (room_messages_table rem) = [payload] \<longrightarrow>
      messages (fst (onInsert payload (remote_room_message rem (refetch_query (row_id payload))) st))
        = messages st @ [hydrate (profiles_table rem) payload] \<and>
      profiles (hydrate (profiles_table rem) payload)
        = map_of (profiles_table rem) (row_sender_id payload)) \<and>
   (in_conversation u other m \<longrightarrow>
      onInsert_dm u other m w = (w\<lparr>messages_dm := messages_dm w @ [m]\<rparr>, [])) \<and>
   (\<not> in_conversation u other m \<longrightarrow> onInsert_dm u other m w = (w, []))"
proof (intro conjI impI)
  show "snd (onInsert payload r st) = [Request (Select (refetch_query (row_id payload)))]"
    by (simp add: onInsert_def split: option.split)
  show "q_single (refetch_query (row_id payload))"
    and "q_filter (refetch_query (row_id payload)) = Some (Eq ''id'' (row_id payload))"
    and "q_columns (refetch_query (row_id payload)) = room_message_columns"
    by (simp_all add: refetch_query_def)
  show "messages (fst (onInsert payload r st)) = messages st @ [d]" if "data r = Some d"
    using that by (simp add: onInsert_appends)
  show "onInsert_dm u other m w = (w\<lparr>messages_dm := messages_dm w @ [m]\<rparr>, [])"
    if "in_conversation u other m"
    using that by (rule onInsert_dm_appends)
  show "onInsert_dm u other m w = (w, [])" if "\<not> in_conversation u other m"
    using that by (rule onInsert_dm_ignores)
  show "profiles (hydrate (profiles_table rem) payload)
        = map_of (profiles_table rem) (row_sender_id payload)"
    by (simp add: hydrate_def)
  assume one: "filter (\<lambda>x. row_id x = row_id payload) (room_messages_table rem) = [payload]"
  have "data (remote_room_message rem (refetch_query (row_id payload)))
          = Some (hydrate (profiles_table rem) payload)"
    by (simp add: remote_room_message_refetch one)
  then show "messages (fst (onInsert payload (remote_room_message rem (refetch_query (row_id payload))) st))
        = messages st @ [hydrate (profiles_table rem) payload]"
    by (simp add: onInsert_appends)
qed

theorem live_event_delivery_witness:
  "filter (\<lambda>x. row_id x = row_id row5) (room_messages_table remote0) = [row5] \<and>
   messages (fst (onInsert row5 (remote_room_message remote0 (refetch_query (row_id row5)))
                    (page0\<lparr>messages := [msg3]\<rparr>))) = [msg3, msg5] \<and>
   profiles msg5 = Some ann \<and>
   in_conversation (Some ''u1'') ''u2'' dm7 \<and>
   onInsert_dm (Some ''u1'') ''u2'' dm7 window0 = (window0\<lparr>messages_dm := [dm7]\<rparr>, []) \<and>
   \<not> in_conversation (Some ''u1'') ''u3'' dm7 \<and>
   onInsert_dm (Some ''u1'') ''u3'' dm7 window0 = (window0, [])"
  using live_event_delivery
    [of row5 "ok msg5" "page0\<lparr>messages := [msg3]\<rparr>" msg5 remote0 "Some ''u1''" "''u2''" dm7 window0]
    live_event_delivery
    [of row5 "ok msg5" "page0\<lparr>messages := [msg3]\<rparr>" msg5 remote0 "Some ''u1''" "''u3''" dm7 window0]
  by (simp add: remote0_def row5_def row3_def msg5_def hydrate_def in_conversation_def dm7_def
      window0_def ok_def)

subsection \<open>Loading a conversation\<close>

text \<open>
  Claim C5, as stated, fails in its last part: a load that fails does not leave the
  store empty, it leaves the store as it was. The page loads room A, which gives one
  message, then the user switches to room B and that load fails: the store still holds
  the message of room A.
\<close>

theorem failed_load_keeps_messages_counterexample:
  "messages (fst (loadMessages ''B'' (failed network_error)
               (fst (loadMessages ''A'' (ok [msg3]) page0)))) = [msg3] \<and>
   messages (fst (loadMessages ''B'' (failed network_error)
               (fst (loadMessages ''A'' (ok [msg3]) page0)))) \<noteq> []"
  by (simp add: loadMessages_success loadMessages_failure ok_def failed_def)

text \<open>
  Claim C5, amended. For every conversation key, load asks the remote for the messages
  of that key in ascending \<^verbatim>\<open>created_at\<close> order with limit 50, and the reference remote
  answers with at most 50 rows, all of that key, in non-decreasing \<^verbatim>\<open>created_at\<close> order.
  When the load succeeds the store becomes the returned list (the empty list when no
  data came). When the client returns an error, whatever its code, the error is logged
  and the toast \<^verbatim>\<open>Failed to load messages\<close> is shown, nothing is thrown to the caller,
  and the message sequence is left as it was before the load: empty when it was empty.
\<close>

theorem load_contract:
  "loadMessages_query roomId =
     \<lparr>q_table = ''room_messages'', q_columns = room_message_columns,
      q_filter = Some (Eq ''room_id'' roomId), q_order = Some (''created_at'', True),
      q_limit = Some 50, q_single = False\<rparr> \<and>
   length (select_rows row_column row_created_at (loadMessages_query roomId) rows) \<le> 50 \<and>
   (\<forall>x\<in>set (select_rows row_column row_created_at (loadMessages_query roomId) rows).
      row_room_id x = roomId \<and> x \<in> set rows) \<and>
   sorted (map row_created_at (select_rows row_column row_created_at (loadMessages_query roomId) rows)) \<and>
   length (select_rows dm_column dm_created_at (loadMessages_dm_query (Some me) other) dms) \<le> 50 \<and>
   (\<forall>x\<in>set (select_rows dm_column dm_created_at (loadMessages_dm_query (Some me) other) dms).
      in_conversation (Some me) other x \<and> x \<in> set dms) \<and>
   sorted (map dm_created_at (select_rows dm_column dm_created_at (loadMessages_dm_query (Some me) other) dms)) \<and>
   (error r = None \<longrightarrow>
      loadMessages roomId r st =
        (st\<lparr>messages := (case data r of None \<Rightarrow> [] | Some d \<Rightarrow> d)\<rparr>,
         [Request (Select (loadMessages_query roomId))])) \<and>
   (error r \<noteq> None \<longrightarrow>
      loadMessages roomId r st =
        (st, [Request (Select (loadMessages_query roomId)),
              ConsoleError ''Error loading messages:'', ToastError ''Failed to load messages''])) \<and>
   (error r' = None \<longrightarrow>
      loadMessages_dm r' w =
        (w\<lparr>messages_dm := (case data r' of None \<Rightarrow> [] | Some d \<Rightarrow> d), loading_dm := False\<rparr>,
         [Request (Select (loadMessages_dm_query (user_dm w) (otherUserId w)))])) \<and>
   (error r' \<noteq> None \<longrightarrow>
      loadMessages_dm r' w =
        (w\<lparr>loading_dm := False\<rparr>,
         [Request (Select (loadMessages_dm_query (user_dm w) (otherUserId w))),
          ConsoleError ''Error loading messages:'', ToastError ''Failed to load messages'']))"
proof (intro conjI impI ballI)
  show "loadMessages_query roomId =
     \<lparr>q_table = ''room_messages'', q_columns = room_message_columns,
      q_filter = Some (Eq ''room_id'' roomId), q_order = Some (''created_at'', True),
      q_limit = Some 50, q_single = False\<rparr>"
    by (simp add: loadMessages_query_def)
  show "length (select_rows row_column row_created_at (loadMessages_query roomId) rows) \<le> 50"
    by (rule select_rows_limit) (simp add: loadMessages_query_def)
  show "sorted (map row_created_at (select_rows row_column row_created_at (loadMessages_query roomId) rows))"
    by (rule select_rows_sorted) (simp add: loadMessages_query_def)
  show "length (select_rows dm_column dm_created_at (loadMessages_dm_query (Some me) other) dms) \<le> 50"
    by (rule select_rows_limit) (simp add: loadMessages_dm_query_def)
  show "sorted (map dm_created_at (select_rows dm_column dm_created_at (loadMessages_dm_query (Some me) other) dms))"
    by (rule select_rows_sorted) (simp add: loadMessages_dm_query_def)
  show "loadMessages roomId r st =
        (st\<lparr>messages := (case data r of None \<Rightarrow> [] | Some d \<Rightarrow> d)\<rparr>,
         [Request (Select (loadMessages_query roomId))])" if "error r = None"
    using that by (rule loadMessages_success)
  show "loadMessages roomId r st =
        (st, [Request (Select (loadMessages_query roomId)),
              ConsoleError ''Error loading messages:'', ToastError ''Failed to load messages''])"
    if "error r \<noteq> None"
    using that by (auto simp: loadMessages_failure)
  show "loadMessages_dm r' w =
        (w\<lparr>messages_dm := (case data r' of None \<Rightarrow> [] | Some d \<Rightarrow> d), loading_dm := False\<rparr>,
         [Request (Select (loadMessages_dm_query (user_dm w) (otherUserId w)))])" if "error r' = None"
    using that by (rule loadMessages_dm_success)
  show "loadMessages_dm r' w =
        (w\<lparr>loading_dm := False\<rparr>,
         [Request (Select (loadMessages_dm_query (user_dm w) (otherUserId w))),
          ConsoleError ''Error loading messages:'', ToastError ''Failed to load messages''])"
    if "error r' \<noteq> None"
    using that by (auto simp: loadMessages_dm_failure)
next
  fix x assume x: "x \<in> set (select_rows row_column row_created_at (loadMessages_query roomId) rows)"
  have "q_filter (loadMessages_query roomId) = Some (Eq ''room_id'' roomId)"
    by (simp add: loadMessages_query_def)
  then have "set (select_rows row_column row_created_at (loadMessages_query roomId) rows)
      \<subseteq> {r \<in> set rows. holds (row_column r) (Eq ''room_id'' roomId)}"
    by (rule select_rows_subset)
  with x have "x \<in> {r \<in> set rows. holds (row_column r) (Eq ''room_id'' roomId)}"
    by (rule subsetD [rotated])
  then show "row_room_id x = roomId" and "x \<in> set rows"
    by (simp_all add: row_column_def)
next
  fix x assume x: "x \<in> set (select_rows dm_column dm_created_at (loadMessages_dm_query (Some me) other) dms)"
  have "q_filter (loadMessages_dm_query (Some me) other) = Some (pair_filter me other)"
    by (simp add: loadMessages_dm_query_def user_text_def)
  then have "set (select_rows dm_column dm_created_at (loadMessages_dm_query (Some me) other) dms)
      \<subseteq> {r \<in> set dms. holds (dm_column r) (pair_filter me other)}"
    by (rule select_rows_subset)
  with x have "x \<in> {r \<in> set dms. holds (dm_column r) (pair_filter me other)}"
    by (rule subsetD [rotated])
  then show "in_conversation (Some me) other x" and "x \<in> set dms"
    by (auto simp: pair_filter_def dm_column_def in_conversation_def)
qed

theorem load_contract_witness:
  "select_rows row_column row_created_at (loadMessages_query ''A'') [row5, row3] = [row3, row5] \<and>
   select_rows dm_column dm_created_at (loadMessages_dm_query (Some ''u1'') ''u2'') [dm7, dm4] = [dm4, dm7] \<and>
   error (failed network_error :: RoomMessage list response) \<noteq> None \<and>
   loadMessages ''A'' (failed network_error) page0 =
     (page0, [Request (Select (loadMessages_query ''A'')),
              ConsoleError ''Error loading messages:'', ToastError ''Failed to load messages'']) \<and>
   error (ok [dm4]) = None \<and>
   loadMessages_dm (ok [dm4]) window0 =
     (window0\<lparr>messages_dm := [dm4], loading_dm := False\<rparr>,
      [Request (Select (loadMessages_dm_query (Some ''u1'') ''u2''))])"
proof -
  note inst = load_contract
    [of "''A''" "[row5, row3]" "''u1''" "''u2''" "[dm7, dm4]" "failed network_error" page0
        "ok [dm4]" window0]
  have rows: "select_rows row_column row_created_at (loadMessages_query ''A'') [row5, row3] = [row3, row5]"
    by (simp add: select_rows_def loadMessages_query_def row_column_def row3_def row5_def)
  have dms: "select_rows dm_column dm_created_at (loadMessages_dm_query (Some ''u1'') ''u2'') [dm7, dm4]
      = [dm4, dm7]"
    by (simp add: select_rows_def loadMessages_dm_query_def dm_column_def dm4_def dm7_def
        pair_filter_def user_text_def)
  have e1: "error (failed network_error :: RoomMessage list response) \<noteq> None"
    by (simp add: failed_def)
  have e2: "error (ok [dm4]) = None" and d2: "data (ok [dm4]) = Some [dm4]"
    by (simp_all add: ok_def)
  have w: "user_dm window0 = Some ''u1''" "otherUserId window0 = ''u2''"
    by (simp_all add: window0_def)
  from inst e1 have l1: "loadMessages ''A'' (failed network_error) page0 =
     (page0, [Request (Select (loadMessages_query ''A'')),
              ConsoleError ''Error loading messages:'', ToastError ''Failed to load messages''])"
    by (elim conjE) blast
  from inst e2 have "loadMessages_dm (ok [dm4]) window0 =
        (window0\<lparr>messages_dm := (case data (ok [dm4]) of None \<Rightarrow> [] | Some d \<Rightarrow> d), loading_dm := False\<rparr>,
         [Request (Select (loadMessages_dm_query (user_dm window0) (otherUserId window0)))])"
    by (elim conjE) blast
  then have l2: "loadMessages_dm (ok [dm4]) window0 =
     (window0\<lparr>messages_dm := [dm4], loading_dm := False\<rparr>,
      [Request (Select (loadMessages_dm_query (Some ''u1'') ''u2''))])"
    by (simp add: d2 w)
  show ?thesis
    using rows dms e1 e2 l1 l2 by (intro conjI)
qed

subsection \<open>Switching the conversation\<close>

text \<open>
  The direct message window: the effect hands React the closure of the channel it
  opened, so a switch to another peer first calls \<^verbatim>\<open>removeChannel\<close> on the old
  channel and then opens a channel again.
\<close>

lemma direct_effect_returns_cleanup:
  "truthy (otherUserId st) \<Longrightarrow> user_dm st \<noteq> None \<Longrightarrow>
     snd (conversation_effect st) = Some dm_channel"
  by (simp add: conversation_effect_def subscribeToMessages_dm_def)

lemma direct_switch_removes_channel:
  assumes "otherUserId st \<noteq> other" and "truthy other" and "user_dm st \<noteq> None"
  shows "setOtherUserId other (st, Some ch) =
     ((st\<lparr>otherUserId := other\<rparr>, Some dm_channel),
      [ChannelRemove ch,
       ChannelSubscribe dm_channel,
       Request (Select (loadOtherUser_query other)),
       Request (Select (loadMessages_dm_query (user_dm st) other))])"
  using assms
  by (simp add: setOtherUserId_def run_cleanup_def conversation_effect_def
      subscribeToMessages_dm_def loadMessages_dm_issue_def)

text \<open>
  The room page: the effect returns no clean-up, whatever the state, so React never
  holds one, and selecting a room calls \<^verbatim>\<open>removeChannel\<close> on nothing.
\<close>

lemma selectedRoom_effect_no_cleanup: "snd (selectedRoom_effect st) = None"
  by (simp add: selectedRoom_effect_def subscribeToMessages_def split: option.split)

lemma room_switch_subscribes_only:
  "setSelectedRoom False room (st, None) =
     ((st\<lparr>selectedRoom := Some room\<rparr>, None),
      [ChannelSubscribe (room_channel (room_id room)),
       Request (Select (loadMessages_query (room_id room)))])"
  by (simp add: setSelectedRoom_def run_cleanup_def selectedRoom_effect_def
      subscribeToMessages_def loadMessages_issue_def)

lemma room_page_never_removes:
  assumes "snd w = None"
  shows "snd (fst (setSelectedRoom same_object room w)) = None \<and>
         ChannelRemove ch \<notin> set (snd (setSelectedRoom same_object room w))"
proof (cases w)
  case (Pair st cl)
  with assms have cl: "cl = None" by simp
  show ?thesis
    by (simp add: Pair cl setSelectedRoom_def run_cleanup_def selectedRoom_effect_def
        subscribeToMessages_def loadMessages_issue_def)
qed

text \<open>
  Claim C3 says that every switch of the active conversation disposes exactly one prior
  subscription and creates exactly one new one. On the room page this is not what
  happens. With room A selected on a fresh page, selecting room B asks for a channel
  for room B and sends the load, and that is all: \<^verbatim>\<open>removeChannel\<close> is not
  called for the channel that was opened for room A, and React is again left without a
  clean-up to run.
\<close>

theorem room_switch_disposes_nothing:
  "setSelectedRoom False roomB (fst (setSelectedRoom False roomA (page0, None))) =
     ((page0\<lparr>selectedRoom := Some roomB\<rparr>, None),
      [ChannelSubscribe (room_channel ''B''), Request (Select (loadMessages_query ''B''))])"
  by (simp add: room_switch_subscribes_only page0_def roomA_def roomB_def)

subsection \<open>One send at a time\<close>

text \<open>
  \<^verbatim>\<open>sendMessage\<close> itself does not read the \<^verbatim>\<open>sending\<close> flag: what keeps a second
  send away is that the controls that call it are disabled while the flag is set.
\<close>

lemma sendMessage_dm_issue_ignores_sending:
  "sendMessage_dm_issue (st\<lparr>sending_dm := b\<rparr>) =
     (case sendMessage_dm_issue st of (st', es) \<Rightarrow> (if es = [] then st'\<lparr>sending_dm := b\<rparr> else st', es))"
  by (simp add: sendMessage_dm_issue_def split: option.split)

lemma inserts_sendMessage_dm_issue:
  "sendMessage_dm_issue st = (st', es) \<Longrightarrow> \<not> sendMessage_dm_guard st \<Longrightarrow>
     length (inserts es) = 1 \<and> sending_dm st'"
  by (auto simp: sendMessage_dm_issue_def sendMessage_dm_guard_def inserts_def requests_def
      split: option.splits if_splits)

lemma inserts_sendMessage_dm_resume: "inserts (snd (sendMessage_dm_resume r st)) = []"
  by (simp add: sendMessage_dm_resume_def inserts_def requests_def split: option.split)

lemma sending_sendMessage_dm_resume: "\<not> sending_dm (fst (sendMessage_dm_resume r st))"
  by (simp add: sendMessage_dm_resume_def split: option.split)

lemma call_sendMessage_dm_idle:
  assumes "\<not> sending_dm st"
  shows "composer_ok (fst (call_sendMessage_dm (st, 0))) \<and>
         length (inserts (snd (call_sendMessage_dm (st, 0)))) \<le> 1"
proof (cases "sendMessage_dm_guard st")
  case True
  then show ?thesis
    using assms by (simp add: call_sendMessage_dm_def composer_ok_def inserts_def requests_def)
next
  case False
  obtain st' es where iss: "sendMessage_dm_issue st = (st', es)"
    by (cases "sendMessage_dm_issue st")
  from inserts_sendMessage_dm_issue [OF iss False] show ?thesis
    using False by (simp add: call_sendMessage_dm_def composer_ok_def iss)
qed

lemma ui_step_while_sending:
  assumes "sending_dm st"
  shows "ui_step (KeyPress k shiftKey) (st, pending) = ((st, pending), [])"
    and "ui_step Click (st, pending) = ((st, pending), [])"
    and "ui_step (Change v) (st, pending) = ((st, pending), [])"
  using assms by (simp_all add: input_disabled_def button_disabled_def)

lemma ui_step_ok:
  assumes "composer_ok w"
  shows "composer_ok (fst (ui_step ev w)) \<and> snd w + length (inserts (snd (ui_step ev w))) \<le> 1"
proof (cases w)
  case (Pair st pending)
  show ?thesis
  proof (cases "sending_dm st")
    case True
    then have p: "pending = 1"
      using assms Pair by (simp add: composer_ok_def)
    show ?thesis
    proof (cases ev)
      case (Answer r)
      then show ?thesis
        using Pair p inserts_sendMessage_dm_resume [of r st] sending_sendMessage_dm_resume [of r st]
        by (simp add: composer_ok_def split_beta)
    qed (use True Pair p assms in \<open>simp_all add: input_disabled_def button_disabled_def inserts_def requests_def\<close>)
  next
    case False
    then have p: "pending = 0"
      using assms Pair by (simp add: composer_ok_def)
    show ?thesis
    proof (cases ev)
      case (Change v)
      then show ?thesis
        using False Pair p
        by (simp add: input_disabled_def composer_ok_def inserts_def requests_def)
    next
      case (KeyPress k shiftKey)
      then show ?thesis
        using False Pair p call_sendMessage_dm_idle [OF False]
        by (simp add: input_disabled_def composer_ok_def inserts_def requests_def)
    next
      case Click
      then show ?thesis
        using False Pair p call_sendMessage_dm_idle [OF False]
        by (simp add: button_disabled_def composer_ok_def inserts_def requests_def)
    next
      case (Answer r)
      then show ?thesis
        using False Pair p by (simp add: composer_ok_def inserts_def requests_def)
    qed
  qed
qed

lemma ui_run_ok: "composer_ok w \<Longrightarrow> composer_ok (fst (ui_run evs w))"
proof (induction evs arbitrary: w)
  case Nil
  then show ?case by simp
next
  case (Cons ev evs)
  from Cons.prems have "composer_ok (fst (ui_step ev w))"
    using ui_step_ok by blast
  then have "composer_ok (fst (ui_run evs (fst (ui_step ev w))))"
    by (rule Cons.IH)
  then show ?case
    by (simp add: split_beta)
qed

lemma composer_ok_pending: "composer_ok w \<Longrightarrow> snd w \<le> 1"
  by (cases w) (simp add: composer_ok_def)

text \<open>
  Claim C8. Start from a composer whose bookkeeping is consistent (such as a freshly
  mounted window: not sending, nothing outstanding) and let the user and the remote do
  anything: type, press keys, click the send button, answer the outstanding insert.
  After any such run at most one insert is outstanding, and the next event issues no
  insert while one is outstanding. While the \<^verbatim>\<open>sending\<close> flag is set, a key press and
  a click are ignored: they change nothing and issue nothing.
\<close>

theorem single_flight:
  "composer_ok w \<Longrightarrow>
     snd (fst (ui_run evs w)) \<le> 1 \<and>
     snd (fst (ui_run evs w)) + length (inserts (snd (ui_step ev (fst (ui_run evs w))))) \<le> 1 \<and>
     (sending_dm (fst (fst (ui_run evs w))) \<longrightarrow>
        snd (fst (ui_run evs w)) = 1 \<and>
        ui_step (KeyPress k shiftKey) (fst (ui_run evs w)) = (fst (ui_run evs w), []) \<and>
        ui_step Click (fst (ui_run evs w)) = (fst (ui_run evs w), []))"
proof -
  assume "composer_ok w"
  then have ok: "composer_ok (fst (ui_run evs w))"
    by (rule ui_run_ok)
  obtain st pending where w': "fst (ui_run evs w) = (st, pending)"
    by (cases "fst (ui_run evs w)")
  have "pending = 1" if "sending_dm st"
    using ok that by (simp add: w' composer_ok_def)
  then show ?thesis
    using composer_ok_pending [OF ok] ui_step_ok [OF ok, of ev]
    by (simp add: w' input_disabled_def button_disabled_def)
qed

theorem single_flight_witness:
  "composer_ok (window0\<lparr>newMessage_dm := ''hi''\<rparr>, 0) \<and>
   ui_run [Click, Click, KeyPress ''Enter'' False] (window0\<lparr>newMessage_dm := ''hi''\<rparr>, 0) =
     ((window0\<lparr>newMessage_dm := ''hi'', sending_dm := True\<rparr>, 1),
      [Request (Insert ''direct_messages''
         [(''sender_id'', ''u1''), (''receiver_id'', ''u2''), (''content'', ''hi'')] False)]) \<and>
   ui_step Click (window0\<lparr>newMessage_dm := ''hi'', sending_dm := True\<rparr>, 1) =
     ((window0\<lparr>newMessage_dm := ''hi'', sending_dm := True\<rparr>, 1), [])"
proof -
  have ok0: "composer_ok (window0\<lparr>newMessage_dm := ''hi''\<rparr>, 0)"
    by (simp add: composer_ok_def window0_def)
  have run: "ui_run [Click, Click, KeyPress ''Enter'' False] (window0\<lparr>newMessage_dm := ''hi''\<rparr>, 0) =
     ((window0\<lparr>newMessage_dm := ''hi'', sending_dm := True\<rparr>, 1),
      [Request (Insert ''direct_messages''
         [(''sender_id'', ''u1''), (''receiver_id'', ''u2''), (''content'', ''hi'')] False)])"
    by (simp add: window0_def button_disabled_def input_disabled_def call_sendMessage_dm_def
        sendMessage_dm_guard_def sendMessage_dm_issue_def truthy_def trim_def is_whitespace_def
        inserts_def requests_def)
  have s: "sending_dm (window0\<lparr>newMessage_dm := ''hi'', sending_dm := True\<rparr>)"
    by simp
  from single_flight [OF ok0, of "[Click, Click, KeyPress ''Enter'' False]" Click "''Enter''" False]
  have "ui_step Click (window0\<lparr>newMessage_dm := ''hi'', sending_dm := True\<rparr>, 1) =
     ((window0\<lparr>newMessage_dm := ''hi'', sending_dm := True\<rparr>, 1), [])"
    unfolding run using s by simp
  with ok0 run show ?thesis by (intro conjI)
qed

subsection \<open>Creating a room\<close>








end
